theory Spec2Isabelle
  imports Main
begin

section \<open>Board metadata: the delta of two states and the cached read\<close>

text \<open>
  A shallow embedding of \<^verbatim>\<open>src/server/boards/utils.ts\<close>. The two exported functions are
  \<^verbatim>\<open>getMetadataDelta\<close>, a pure function of the old and the new metadata of a board, and
  \<^verbatim>\<open>getBoardMetadataByExternalId\<close>, which reads a board through a cache.

  JavaScript values are modelled as follows: a value that may be \<^verbatim>\<open>undefined\<close> or \<^verbatim>\<open>null\<close> is an
  \<open>option\<close>, \<open>None\<close> standing for \<^verbatim>\<open>undefined\<close> or \<^verbatim>\<open>null\<close>; an array is a list; a thrown
  exception is the left summand of the result. A string is a list of 8-bit code units, that
  is a string all of whose UTF-16 code units are below 256 (Basic Latin and Latin-1
  Supplement).
\<close>

subsection \<open>Data\<close>

datatype error = TypeError | SyntaxError

text \<open>The discriminant \<^verbatim>\<open>type: "text" | "category_filter"\<close> of a description.\<close>

datatype description_type = Text | Category_filter

text \<open>
  Modelled from the spec: the declarations of \<^verbatim>\<open>DbBoardTextDescription\<close> and
  \<^verbatim>\<open>DbBoardCategoryDescription\<close> (module \<^verbatim>\<open>Types\<close>) and of \<^verbatim>\<open>BoardByExternalId\<close>
  (\<^verbatim>\<open>./sql/types\<close>) lie outside \<^verbatim>\<open>utils.ts\<close>. The fields are those the return type
  of \<^verbatim>\<open>getMetadataDelta\<close> lists for an entry (\<^verbatim>\<open>id\<close>, \<^verbatim>\<open>index\<close>, \<^verbatim>\<open>title\<close>, \<^verbatim>\<open>type\<close>,
  \<^verbatim>\<open>description\<close>, \<^verbatim>\<open>categories\<close>) and those the function reads (\<^verbatim>\<open>descriptions\<close>,
  \<^verbatim>\<open>settings.accentColor\<close>, \<^verbatim>\<open>tagline\<close>). A description is a union discriminated by
  \<^verbatim>\<open>type\<close>: the constructor of \<open>BoardDescription\<close> is that discriminant, a text section has
  no categories, and a category filter has an array of them.
\<close>

record DbBoardTextDescription =
  text_id :: string
  text_index :: int
  text_title :: string
  text_description :: string

record DbBoardCategoryDescription =
  filter_id :: string
  filter_index :: int
  filter_title :: string
  filter_description :: "string option"
  filter_categories :: "string list"

datatype BoardDescription =
    TextDescription DbBoardTextDescription
  | CategoryFilterDescription DbBoardCategoryDescription

record BoardSettings =
  accentColor :: "string option"

text \<open>
  \<^verbatim>\<open>Partial<BoardByExternalId>\<close>: every property may be missing. Only the properties that
  \<^verbatim>\<open>getMetadataDelta\<close> reads are kept.
\<close>

record BoardByExternalId =
  tagline :: "string option"
  settings :: "BoardSettings option"
  descriptions :: "BoardDescription list option"

text \<open>The result of \<^verbatim>\<open>getMetadataDelta\<close>, as its return type is written.\<close>

record DeletedItem =
  deleted_id :: string

record UpdatedText =
  ut_id :: string
  ut_index :: int
  ut_title :: string
  ut_type :: description_type
  ut_description :: string
  ut_updated :: bool

record CategoriesDelta =
  cat_deleted :: "string list"
  cat_new :: "string list"

record UpdatedFilter =
  uf_id :: string
  uf_index :: int
  uf_title :: string
  uf_type :: description_type
  uf_description :: "string option"
  uf_categories :: "CategoriesDelta option"
  uf_updated :: bool

record TextsDelta =
  texts_deleted :: "DeletedItem list"
  texts_newAndUpdated :: "UpdatedText list"

record FiltersDelta =
  filters_deleted :: "DeletedItem list"
  filters_newAndUpdated :: "UpdatedFilter list"

text \<open>
  The optional properties \<^verbatim>\<open>tagline?: string\<close> and \<^verbatim>\<open>accentColor?: string\<close> of the result:
  the object may lack the key, or have it with a string or with \<^verbatim>\<open>undefined\<close> as its value.
  Reading the property gives \<^verbatim>\<open>undefined\<close> in the first and in the last case, but
  \<^verbatim>\<open>Object.keys\<close> and the \<^verbatim>\<open>in\<close> operator tell them apart.
\<close>

datatype 'a optional_key = KeyAbsent | KeyPresent 'a

record MetadataDelta =
  delta_accentColor :: "string option optional_key"
  delta_tagline :: "string option optional_key"
  delta_texts :: TextsDelta
  delta_categoryFilters :: FiltersDelta

subsection \<open>Strings\<close>

text \<open>
  \<^verbatim>\<open>String.prototype.toLowerCase\<close> on strings of code units below 256. The upper-case
  letters of that range are \<^verbatim>\<open>A\<close> to \<^verbatim>\<open>Z\<close> (65 to 90) and the letters from U+00C0 to U+00DE
  but for the multiplication sign U+00D7 (192 to 222 but for 215); the lower-case form of
  each is 32 code units higher. Every other code unit of the range is kept, and none of the
  context-sensitive or length-changing mappings of Unicode applies there.
\<close>

definition isUpperCase :: "char \<Rightarrow> bool" where
  "isUpperCase c =
     (let n = (of_char c :: nat)
      in (65 \<le> n \<and> n \<le> 90) \<or> (192 \<le> n \<and> n \<le> 222 \<and> n \<noteq> 215))"

definition toLowerChar :: "char \<Rightarrow> char" where
  "toLowerChar c = (if isUpperCase c then char_of (of_char c + 32 :: nat) else c)"

definition toLowerCase :: "string \<Rightarrow> string" where
  "toLowerCase s = map toLowerChar s"

text \<open>
  The words of the specification, ``categories identical except for case'': two strings
  of the same length whose characters at each position are the same, or an upper-case
  letter and its lower-case form. This definition does not come from the code; the code's
  comparison of two folded strings is proved equal to it below.
\<close>

definition sameLetter :: "char \<Rightarrow> char \<Rightarrow> bool" where
  "sameLetter c d \<longleftrightarrow>
     c = d
     \<or> (isUpperCase c \<and> (of_char d :: nat) = of_char c + 32)
     \<or> (isUpperCase d \<and> (of_char c :: nat) = of_char d + 32)"

definition equalIgnoringCase :: "string \<Rightarrow> string \<Rightarrow> bool" where
  "equalIgnoringCase s t = list_all2 sameLetter s t"

subsection \<open>The normalised collections\<close>

text \<open>
  \<^verbatim>\<open>metadata.descriptions?.filter((desc) => desc.type == "text") || []\<close> and its sibling for
  \<^verbatim>\<open>"category_filter"\<close>. A missing \<^verbatim>\<open>descriptions\<close> gives \<^verbatim>\<open>undefined || []\<close>, the empty
  array; an array, even an empty one, is truthy and is filtered.
\<close>

fun asText :: "BoardDescription \<Rightarrow> DbBoardTextDescription option" where
  "asText (TextDescription t) = Some t"
| "asText (CategoryFilterDescription f) = None"

fun asCategoryFilter :: "BoardDescription \<Rightarrow> DbBoardCategoryDescription option" where
  "asCategoryFilter (TextDescription t) = None"
| "asCategoryFilter (CategoryFilterDescription f) = Some f"

definition textsOf :: "BoardByExternalId \<Rightarrow> DbBoardTextDescription list" where
  "textsOf metadata =
     (case descriptions metadata of
        None \<Rightarrow> []
      | Some ds \<Rightarrow> List.map_filter asText ds)"

definition categoryFiltersOf :: "BoardByExternalId \<Rightarrow> DbBoardCategoryDescription list" where
  "categoryFiltersOf metadata =
     (case descriptions metadata of
        None \<Rightarrow> []
      | Some ds \<Rightarrow> List.map_filter asCategoryFilter ds)"

subsection \<open>getMetadataDelta\<close>

text \<open>The callback of \<^verbatim>\<open>newTexts.map\<close>: the text, spread, with its \<^verbatim>\<open>updated\<close> flag.\<close>

definition updatedText ::
  "DbBoardTextDescription list \<Rightarrow> DbBoardTextDescription \<Rightarrow> UpdatedText" where
  "updatedText oldTexts text =
     \<lparr> ut_id = text_id text,
       ut_index = text_index text,
       ut_title = text_title text,
       ut_type = Text,
       ut_description = text_description text,
       ut_updated = list_ex (\<lambda>oldText. text_id oldText = text_id text) oldTexts \<rparr>"

text \<open>
  The callback of \<^verbatim>\<open>newCategoryFilters.map\<close>. \<^verbatim>\<open>oldFilter\<close> is the first old filter with the
  id of the new one (\<^verbatim>\<open>Array.prototype.find\<close>), or \<^verbatim>\<open>undefined\<close>; an object is truthy.
\<close>

definition updatedFilter ::
  "DbBoardCategoryDescription list \<Rightarrow> DbBoardCategoryDescription \<Rightarrow> UpdatedFilter" where
  "updatedFilter oldCategoryFilters newFilter =
     (let oldFilter = find (\<lambda>oldFilter. filter_id oldFilter = filter_id newFilter)
                        oldCategoryFilters;
          deletedCategories =
            (case oldFilter of
               Some oldF \<Rightarrow>
                 filter (\<lambda>oldCategory.
                     \<not> list_ex (\<lambda>newCategory.
                         toLowerCase oldCategory = toLowerCase newCategory)
                       (filter_categories newFilter))
                   (filter_categories oldF)
             | None \<Rightarrow> []);
          newCategories =
            (case oldFilter of
               Some oldF \<Rightarrow>
                 filter (\<lambda>newCategory.
                     \<not> list_ex (\<lambda>oldCategory.
                         toLowerCase oldCategory = toLowerCase newCategory)
                       (filter_categories oldF))
                   (filter_categories newFilter)
             | None \<Rightarrow> filter_categories newFilter)
      in \<lparr> uf_id = filter_id newFilter,
           uf_index = filter_index newFilter,
           uf_title = filter_title newFilter,
           uf_type = Category_filter,
           uf_description = filter_description newFilter,
           uf_categories =
             Some \<lparr> cat_deleted = deletedCategories, cat_new = newCategories \<rparr>,
           uf_updated = (oldFilter \<noteq> None) \<rparr>)"

text \<open>
  The function itself. The collections are computed first, as in the source. The returned
  object literal lists the keys \<^verbatim>\<open>accentColor\<close> and \<^verbatim>\<open>tagline\<close> whatever their values are,
  the value of an unchanged field being \<^verbatim>\<open>undefined\<close>. For \<^verbatim>\<open>accentColor\<close> it reads
  \<^verbatim>\<open>oldMetadata.settings!.accentColor\<close> and \<^verbatim>\<open>newMetadata.settings!.accentColor\<close>; the \<^verbatim>\<open>!\<close>
  is erased by the compiler, so reading \<^verbatim>\<open>accentColor\<close> of a missing \<^verbatim>\<open>settings\<close> throws a
  \<^verbatim>\<open>TypeError\<close>.
\<close>

definition getMetadataDelta ::
  "BoardByExternalId \<Rightarrow> BoardByExternalId \<Rightarrow> error + MetadataDelta" where
  "getMetadataDelta oldMetadata newMetadata =
     (let oldTexts = textsOf oldMetadata;
          oldCategoryFilters = categoryFiltersOf oldMetadata;
          newTexts = textsOf newMetadata;
          newCategoryFilters = categoryFiltersOf newMetadata;
          deletedTexts =
            filter (\<lambda>oldText.
                \<not> list_ex (\<lambda>newText. text_id newText = text_id oldText) newTexts)
              oldTexts;
          newAndUpdatedTexts = map (updatedText oldTexts) newTexts;
          deletedFilters =
            filter (\<lambda>oldFilter.
                \<not> list_ex (\<lambda>newFilter. filter_id newFilter = filter_id oldFilter)
                  newCategoryFilters)
              oldCategoryFilters;
          newAndUpdatedFilters = map (updatedFilter oldCategoryFilters) newCategoryFilters
      in case settings oldMetadata of
           None \<Rightarrow> Inl TypeError
         | Some oldSettings \<Rightarrow>
            (case settings newMetadata of
               None \<Rightarrow> Inl TypeError
             | Some newSettings \<Rightarrow>
                 Inr \<lparr> delta_accentColor =
                         KeyPresent
                           (if accentColor oldSettings \<noteq> accentColor newSettings
                            then accentColor newSettings else None),
                       delta_tagline =
                         KeyPresent
                           (if tagline oldMetadata \<noteq> tagline newMetadata
                            then tagline newMetadata else None),
                       delta_texts =
                         \<lparr> texts_deleted =
                             map (\<lambda>text. \<lparr> deleted_id = text_id text \<rparr>) deletedTexts,
                           texts_newAndUpdated = newAndUpdatedTexts \<rparr>,
                       delta_categoryFilters =
                         \<lparr> filters_deleted =
                             map (\<lambda>filter. \<lparr> deleted_id = filter_id filter \<rparr>)
                               deletedFilters,
                           filters_newAndUpdated = newAndUpdatedFilters \<rparr> \<rparr>))"

subsection \<open>getBoardMetadataByExternalId\<close>

text \<open>
  Modelled from the spec: the cache (\<^verbatim>\<open>server/cache\<close>) lies outside \<^verbatim>\<open>utils.ts\<close>. It is
  the collaborator of the spec, \<^verbatim>\<open>get(key) -> serializedState | miss\<close> and
  \<^verbatim>\<open>set(key, serializedState)\<close>, here a hash addressed by a key and a field as \<^verbatim>\<open>hGet\<close> and
  \<^verbatim>\<open>hSet\<close> are called. The state records the stored strings and every call made, so that
  a read leaves a trace as well as a write.
\<close>

datatype cache_call = HGet string string | HSet string string string

record cache_state =
  store :: "string \<times> string \<Rightarrow> string option"
  calls :: "cache_call list"

definition hGet :: "string \<Rightarrow> string \<Rightarrow> cache_state \<Rightarrow> string option \<times> cache_state" where
  "hGet key field c = (store c (key, field), c\<lparr> calls := calls c @ [HGet key field] \<rparr>)"

definition hSet :: "string \<Rightarrow> string \<Rightarrow> string \<Rightarrow> cache_state \<Rightarrow> cache_state" where
  "hSet key field v c =
     c\<lparr> store := (store c)((key, field) \<mapsto> v), calls := calls c @ [HSet key field v] \<rparr>"

text \<open>
  The functions and the constant that \<^verbatim>\<open>utils.ts\<close> imports from other modules are
  parameters: the cache key \<^verbatim>\<open>CacheKeys.BOARD_METADATA\<close>, the storage
  fetch \<^verbatim>\<open>getBoardByExternalId\<close> (a board or \<^verbatim>\<open>null\<close>), the two response shapers, the
  object spread that merges their results (the first summary is \<^verbatim>\<open>undefined\<close> when the
  list of summaries is empty), \<^verbatim>\<open>stringify\<close> and \<^verbatim>\<open>JSON.parse\<close> (which may throw).
  \<open>'b\<close> is the type of a stored board, \<open>'r\<close> that of a rendered object.
\<close>

record ('b, 'r) collaborators =
  BOARD_METADATA :: string
  getBoardByExternalId :: "string option \<Rightarrow> string \<Rightarrow> 'b option"
  processBoardsSummary :: "'b list \<Rightarrow> bool \<Rightarrow> bool \<Rightarrow> 'r list"
  processBoardMetadata :: "'b \<Rightarrow> bool \<Rightarrow> bool \<Rightarrow> 'r"
  spread :: "'r option \<Rightarrow> 'r \<Rightarrow> 'r"
  stringify :: "'r \<Rightarrow> string"
  JSON_parse :: "string \<Rightarrow> error + 'r option"

text \<open>
  Truthiness of an optional string, as \<^verbatim>\<open>!firebaseId\<close>, \<^verbatim>\<open>!!firebaseId\<close> and
  \<^verbatim>\<open>if (cachedBoard)\<close> test it: \<^verbatim>\<open>undefined\<close> and the empty string are falsy. (The
  lookup result is tested in place, by a case on it.)
\<close>

definition truthy :: "string option \<Rightarrow> bool" where
  "truthy s = (case s of None \<Rightarrow> False | Some v \<Rightarrow> v \<noteq> [])"

text \<open>The part of the function after the cache lookup: fetch, render, store when anonymous.\<close>

definition fetchAndRender ::
  "('b, 'r) collaborators \<Rightarrow> string \<Rightarrow> string option \<Rightarrow> bool \<Rightarrow> cache_state
     \<Rightarrow> (error + 'r option) \<times> cache_state" where
  "fetchAndRender env boardExternalId firebaseId hasBoardAccess c =
     (case getBoardByExternalId env firebaseId boardExternalId of
        None \<Rightarrow> (Inr None, c)
      | Some board \<Rightarrow>
          (let boardSummary =
                 processBoardsSummary env [board] (truthy firebaseId) hasBoardAccess;
               boardMetadata =
                 processBoardMetadata env board (truthy firebaseId) hasBoardAccess;
               finalMetadata =
                 spread env (case boardSummary of [] \<Rightarrow> None | first # _ \<Rightarrow> Some first)
                   boardMetadata
           in (Inr (Some finalMetadata),
               if \<not> truthy firebaseId
               then hSet (BOARD_METADATA env) boardExternalId (stringify env finalMetadata) c
               else c)))"

definition getBoardMetadataByExternalId ::
  "('b, 'r) collaborators \<Rightarrow> string \<Rightarrow> string option \<Rightarrow> bool \<Rightarrow> cache_state
     \<Rightarrow> (error + 'r option) \<times> cache_state" where
  "getBoardMetadataByExternalId env boardExternalId firebaseId hasBoardAccess c =
     (if \<not> truthy firebaseId then
        (case hGet (BOARD_METADATA env) boardExternalId c of
           (cachedBoard, c') \<Rightarrow>
             (case cachedBoard of
                Some cached \<Rightarrow>
                  if cached \<noteq> [] then (JSON_parse env cached, c')
                  else fetchAndRender env boardExternalId firebaseId hasBoardAccess c'
              | None \<Rightarrow> fetchAndRender env boardExternalId firebaseId hasBoardAccess c'))
      else fetchAndRender env boardExternalId firebaseId hasBoardAccess c)"

subsection \<open>Example boards\<close>

text \<open>
  Two states of the board \<^verbatim>\<open>gore\<close> of the test data: the accent colour changes, the
  tagline does not; a text is added; the category filter \<^verbatim>\<open>f1\<close> is edited, \<^verbatim>\<open>f3\<close> is
  removed and \<^verbatim>\<open>f2\<close> is added. In \<^verbatim>\<open>f1\<close>, \<^verbatim>\<open>Blood\<close> and the French word for summer
  (U+00C9, \<^verbatim>\<open>t\<close>, U+00E9) are only written in lower case, \<^verbatim>\<open>Bruises\<close> and \<^verbatim>\<open>cat\<close> are removed,
  \<^verbatim>\<open>KnifePlay\<close> and \<^verbatim>\<open>dog\<close> are added.
\<close>

definition gore_old :: BoardByExternalId where
  "gore_old =
     \<lparr> tagline = Some ''Blood! Blood! Blood!'',
       settings = Some \<lparr> accentColor = Some ''#f96680'' \<rparr>,
       descriptions = Some
         [ TextDescription \<lparr> text_id = ''t1'', text_index = 1, text_title = ''Rules'',
             text_description = ''Be kind'' \<rparr>,
           CategoryFilterDescription \<lparr> filter_id = ''f1'', filter_index = 2,
             filter_title = ''Gore Categories'', filter_description = None,
             filter_categories =
               [''Blood'', ''Bruises'', ''cat'', [CHR 0xC9, CHR ''t'', CHR 0xE9]] \<rparr>,
           CategoryFilterDescription \<lparr> filter_id = ''f3'', filter_index = 3,
             filter_title = ''Empty'', filter_description = None,
             filter_categories = [] \<rparr> ] \<rparr>"

definition gore_new :: BoardByExternalId where
  "gore_new =
     \<lparr> tagline = Some ''Blood! Blood! Blood!'',
       settings = Some \<lparr> accentColor = Some ''#ff5252'' \<rparr>,
       descriptions = Some
         [ TextDescription \<lparr> text_id = ''t1'', text_index = 1, text_title = ''Rules'',
             text_description = ''Be kinder'' \<rparr>,
           TextDescription \<lparr> text_id = ''t2'', text_index = 4, text_title = ''About'',
             text_description = ''A board'' \<rparr>,
           CategoryFilterDescription \<lparr> filter_id = ''f1'', filter_index = 2,
             filter_title = ''Gore Categories'', filter_description = None,
             filter_categories =
               [''blood'', ''KnifePlay'', ''dog'', [CHR 0xE9, CHR ''t'', CHR 0xE9]] \<rparr>,
           CategoryFilterDescription \<lparr> filter_id = ''f2'', filter_index = 5,
             filter_title = ''Parity'', filter_description = None,
             filter_categories = [''odd'', ''even''] \<rparr> ] \<rparr>"

definition gore_delta :: MetadataDelta where
  "gore_delta =
     \<lparr> delta_accentColor = KeyPresent (Some ''#ff5252''),
       delta_tagline = KeyPresent None,
       delta_texts =
         \<lparr> texts_deleted = [],
           texts_newAndUpdated =
             [ \<lparr> ut_id = ''t1'', ut_index = 1, ut_title = ''Rules'', ut_type = Text,
                 ut_description = ''Be kinder'', ut_updated = True \<rparr>,
               \<lparr> ut_id = ''t2'', ut_index = 4, ut_title = ''About'', ut_type = Text,
                 ut_description = ''A board'', ut_updated = False \<rparr> ] \<rparr>,
       delta_categoryFilters =
         \<lparr> filters_deleted = [ \<lparr> deleted_id = ''f3'' \<rparr> ],
           filters_newAndUpdated =
             [ \<lparr> uf_id = ''f1'', uf_index = 2, uf_title = ''Gore Categories'',
                 uf_type = Category_filter, uf_description = None,
                 uf_categories =
                   Some \<lparr> cat_deleted = [''Bruises'', ''cat''],
                          cat_new = [''KnifePlay'', ''dog''] \<rparr>,
                 uf_updated = True \<rparr>,
               \<lparr> uf_id = ''f2'', uf_index = 5, uf_title = ''Parity'',
                 uf_type = Category_filter, uf_description = None,
                 uf_categories = Some \<lparr> cat_deleted = [], cat_new = [''odd'', ''even''] \<rparr>,
                 uf_updated = False \<rparr> ] \<rparr> \<rparr>"

text \<open>
  Two states of a board whose category filters exist in both: \<^verbatim>\<open>p1\<close> had no category and
  gains one, \<^verbatim>\<open>p2\<close> loses all of its categories. The accent colour \<^verbatim>\<open>#ff5252\<close> and the
  missing tagline are the same in both.
\<close>

definition parity_old :: BoardByExternalId where
  "parity_old =
     \<lparr> tagline = None,
       settings = Some \<lparr> accentColor = Some ''#ff5252'' \<rparr>,
       descriptions = Some
         [ CategoryFilterDescription \<lparr> filter_id = ''p1'', filter_index = 1,
             filter_title = ''First'', filter_description = None,
             filter_categories = [] \<rparr>,
           CategoryFilterDescription \<lparr> filter_id = ''p2'', filter_index = 2,
             filter_title = ''Second'', filter_description = None,
             filter_categories = [''odd'', ''even''] \<rparr> ] \<rparr>"

definition parity_new :: BoardByExternalId where
  "parity_new =
     \<lparr> tagline = None,
       settings = Some \<lparr> accentColor = Some ''#ff5252'' \<rparr>,
       descriptions = Some
         [ CategoryFilterDescription \<lparr> filter_id = ''p1'', filter_index = 1,
             filter_title = ''First'', filter_description = None,
             filter_categories = [''odd''] \<rparr>,
           CategoryFilterDescription \<lparr> filter_id = ''p2'', filter_index = 2,
             filter_title = ''Second'', filter_description = None,
             filter_categories = [] \<rparr> ] \<rparr>"

definition parity_delta :: MetadataDelta where
  "parity_delta =
     \<lparr> delta_accentColor = KeyPresent None,
       delta_tagline = KeyPresent None,
       delta_texts = \<lparr> texts_deleted = [], texts_newAndUpdated = [] \<rparr>,
       delta_categoryFilters =
         \<lparr> filters_deleted = [],
           filters_newAndUpdated =
             [ \<lparr> uf_id = ''p1'', uf_index = 1, uf_title = ''First'',
                 uf_type = Category_filter, uf_description = None,
                 uf_categories = Some \<lparr> cat_deleted = [], cat_new = [''odd''] \<rparr>,
                 uf_updated = True \<rparr>,
               \<lparr> uf_id = ''p2'', uf_index = 2, uf_title = ''Second'',
                 uf_type = Category_filter, uf_description = None,
                 uf_categories = Some \<lparr> cat_deleted = [''odd'', ''even''], cat_new = [] \<rparr>,
                 uf_updated = True \<rparr> ] \<rparr> \<rparr>"

text \<open>A board without any property, as \<^verbatim>\<open>Partial\<close> allows it.\<close>

definition empty_board :: BoardByExternalId where
  "empty_board = \<lparr> tagline = None, settings = None, descriptions = None \<rparr>"

text \<open>
  Collaborators for a run of \<^verbatim>\<open>getBoardMetadataByExternalId\<close>: boards and rendered objects are
  strings, one board is stored, and one rendering of it is cached.
\<close>

definition demo_env :: "(string, string) collaborators" where
  "demo_env =
     \<lparr> BOARD_METADATA = ''BOARD_METADATA'',
       getBoardByExternalId = (\<lambda>firebaseId boardExternalId.
          if boardExternalId = ''gore'' then Some ''gore-row'' else None),
       processBoardsSummary = (\<lambda>boards isLoggedIn hasRealmMemberAccess.
          map (\<lambda>b. if isLoggedIn then ''summary+'' else ''summary'') boards),
       processBoardMetadata = (\<lambda>board isLoggedIn hasBoardAccess.
          if isLoggedIn then ''metadata+'' else ''metadata''),
       spread = (\<lambda>first rest. (case first of None \<Rightarrow> [] | Some f \<Rightarrow> f) @ '','' @ rest),
       stringify = (\<lambda>r. r),
       JSON_parse = (\<lambda>s. Inr (Some s)) \<rparr>"

definition demo_cache :: cache_state where
  "demo_cache =
     \<lparr> store = [(''BOARD_METADATA'', ''gore'') \<mapsto> ''cached-anonymous-view''],
       calls = [] \<rparr>"

section \<open>Properties\<close>

subsection \<open>Auxiliary facts\<close>

text \<open>The delta that is returned when both states have their settings.\<close>

lemma getMetadataDelta_returns:
  assumes "settings oldMetadata = Some oldSettings"
    and "settings newMetadata = Some newSettings"
  shows "getMetadataDelta oldMetadata newMetadata =
    Inr \<lparr> delta_accentColor =
            KeyPresent
              (if accentColor oldSettings \<noteq> accentColor newSettings
               then accentColor newSettings else None),
          delta_tagline =
            KeyPresent
              (if tagline oldMetadata \<noteq> tagline newMetadata
               then tagline newMetadata else None),
          delta_texts =
            \<lparr> texts_deleted =
                map (\<lambda>text. \<lparr> deleted_id = text_id text \<rparr>)
                  (filter (\<lambda>oldText.
                      \<not> list_ex (\<lambda>newText. text_id newText = text_id oldText)
                        (textsOf newMetadata))
                    (textsOf oldMetadata)),
              texts_newAndUpdated =
                map (updatedText (textsOf oldMetadata)) (textsOf newMetadata) \<rparr>,
          delta_categoryFilters =
            \<lparr> filters_deleted =
                map (\<lambda>f. \<lparr> deleted_id = filter_id f \<rparr>)
                  (filter (\<lambda>oldFilter.
                      \<not> list_ex (\<lambda>newFilter. filter_id newFilter = filter_id oldFilter)
                        (categoryFiltersOf newMetadata))
                    (categoryFiltersOf oldMetadata)),
              filters_newAndUpdated =
                map (updatedFilter (categoryFiltersOf oldMetadata))
                  (categoryFiltersOf newMetadata) \<rparr> \<rparr>"
  using assms by (simp add: getMetadataDelta_def Let_def)

lemma getMetadataDelta_Inr_settings:
  assumes "getMetadataDelta oldMetadata newMetadata = Inr d"
  obtains oldSettings newSettings
  where "settings oldMetadata = Some oldSettings"
    and "settings newMetadata = Some newSettings"
proof (cases "settings oldMetadata")
  case None
  with assms show ?thesis
    by (simp add: getMetadataDelta_def Let_def)
next
  case old: (Some oldSettings)
  show ?thesis
  proof (cases "settings newMetadata")
    case None
    with assms old show ?thesis
      by (simp add: getMetadataDelta_def Let_def)
  next
    case (Some newSettings)
    with old that show ?thesis by blast
  qed
qed

text \<open>The fields of a returned delta, one by one.\<close>

lemma getMetadataDelta_Inr_fields:
  assumes "getMetadataDelta oldMetadata newMetadata = Inr d"
  shows "texts_deleted (delta_texts d) =
           map (\<lambda>text. \<lparr> deleted_id = text_id text \<rparr>)
             (filter (\<lambda>oldText.
                 \<not> list_ex (\<lambda>newText. text_id newText = text_id oldText)
                   (textsOf newMetadata))
               (textsOf oldMetadata))"
    and "texts_newAndUpdated (delta_texts d) =
           map (updatedText (textsOf oldMetadata)) (textsOf newMetadata)"
    and "filters_deleted (delta_categoryFilters d) =
           map (\<lambda>f. \<lparr> deleted_id = filter_id f \<rparr>)
             (filter (\<lambda>oldFilter.
                 \<not> list_ex (\<lambda>newFilter. filter_id newFilter = filter_id oldFilter)
                   (categoryFiltersOf newMetadata))
               (categoryFiltersOf oldMetadata))"
    and "filters_newAndUpdated (delta_categoryFilters d) =
           map (updatedFilter (categoryFiltersOf oldMetadata)) (categoryFiltersOf newMetadata)"
    and "delta_tagline d =
           KeyPresent
             (if tagline oldMetadata \<noteq> tagline newMetadata then tagline newMetadata
              else None)"
    and "\<exists>oldSettings newSettings.
           settings oldMetadata = Some oldSettings \<and> settings newMetadata = Some newSettings \<and>
           delta_accentColor d =
             KeyPresent
               (if accentColor oldSettings \<noteq> accentColor newSettings
                then accentColor newSettings else None)"
proof -
  from assms obtain os ns
    where os: "settings oldMetadata = Some os" and ns: "settings newMetadata = Some ns"
    by (rule getMetadataDelta_Inr_settings)
  note d = assms[unfolded getMetadataDelta_returns[OF os ns], simplified, symmetric]
  show "texts_deleted (delta_texts d) =
           map (\<lambda>text. \<lparr> deleted_id = text_id text \<rparr>)
             (filter (\<lambda>oldText.
                 \<not> list_ex (\<lambda>newText. text_id newText = text_id oldText)
                   (textsOf newMetadata))
               (textsOf oldMetadata))"
    by (simp add: d)
  show "texts_newAndUpdated (delta_texts d) =
           map (updatedText (textsOf oldMetadata)) (textsOf newMetadata)"
    by (simp add: d)
  show "filters_deleted (delta_categoryFilters d) =
           map (\<lambda>f. \<lparr> deleted_id = filter_id f \<rparr>)
             (filter (\<lambda>oldFilter.
                 \<not> list_ex (\<lambda>newFilter. filter_id newFilter = filter_id oldFilter)
                   (categoryFiltersOf newMetadata))
               (categoryFiltersOf oldMetadata))"
    by (simp add: d)
  show "filters_newAndUpdated (delta_categoryFilters d) =
           map (updatedFilter (categoryFiltersOf oldMetadata)) (categoryFiltersOf newMetadata)"
    by (simp add: d)
  show "delta_tagline d =
           KeyPresent
             (if tagline oldMetadata \<noteq> tagline newMetadata then tagline newMetadata
              else None)"
    by (simp add: d)
  show "\<exists>oldSettings newSettings.
           settings oldMetadata = Some oldSettings \<and> settings newMetadata = Some newSettings \<and>
           delta_accentColor d =
             KeyPresent
               (if accentColor oldSettings \<noteq> accentColor newSettings
                then accentColor newSettings else None)"
    by (simp add: d os ns)
qed

lemma list_ex_eq_image: "list_ex (\<lambda>x. f x = v) xs \<longleftrightarrow> v \<in> f ` set xs"
  by (induction xs) auto

lemma list_ex_eq_image_sym: "list_ex (\<lambda>x. v = f x) xs \<longleftrightarrow> v \<in> f ` set xs"
  by (induction xs) auto

lemma find_eq_None_image: "find (\<lambda>x. f x = v) xs = None \<longleftrightarrow> v \<notin> f ` set xs"
  by (induction xs) auto

lemma find_eq_Some_image: "find (\<lambda>x. f x = v) xs = Some y \<Longrightarrow> v \<in> f ` set xs"
  by (induction xs) (auto split: if_splits)

lemma find_eq_Some_mem: "find P xs = Some y \<Longrightarrow> y \<in> set xs \<and> P y"
  by (induction xs) (auto split: if_splits)

lemma updatedFilter_absent:
  assumes "filter_id newFilter \<notin> filter_id ` set oldCategoryFilters"
  shows "updatedFilter oldCategoryFilters newFilter =
           \<lparr> uf_id = filter_id newFilter, uf_index = filter_index newFilter,
             uf_title = filter_title newFilter, uf_type = Category_filter,
             uf_description = filter_description newFilter,
             uf_categories =
               Some \<lparr> cat_deleted = [], cat_new = filter_categories newFilter \<rparr>,
             uf_updated = False \<rparr>"
proof -
  have "find (\<lambda>oldFilter. filter_id oldFilter = filter_id newFilter) oldCategoryFilters = None"
    using assms by (simp add: find_eq_None_image)
  then show ?thesis
    by (simp add: updatedFilter_def)
qed

lemma updatedFilter_present:
  assumes "find (\<lambda>oldFilter. filter_id oldFilter = filter_id newFilter) oldCategoryFilters
             = Some oldF"
  shows "updatedFilter oldCategoryFilters newFilter =
           \<lparr> uf_id = filter_id newFilter, uf_index = filter_index newFilter,
             uf_title = filter_title newFilter, uf_type = Category_filter,
             uf_description = filter_description newFilter,
             uf_categories =
               Some \<lparr> cat_deleted =
                        filter (\<lambda>oldCategory. toLowerCase oldCategory \<notin>
                            toLowerCase ` set (filter_categories newFilter))
                          (filter_categories oldF),
                      cat_new =
                        filter (\<lambda>newCategory. toLowerCase newCategory \<notin>
                            toLowerCase ` set (filter_categories oldF))
                          (filter_categories newFilter) \<rparr>,
             uf_updated = True \<rparr>"
proof -
  have 1: "(\<lambda>oldCategory. \<not> list_ex (\<lambda>newCategory.
              toLowerCase oldCategory = toLowerCase newCategory) (filter_categories newFilter))
        = (\<lambda>oldCategory. toLowerCase oldCategory \<notin>
              toLowerCase ` set (filter_categories newFilter))"
    by (simp add: list_ex_eq_image_sym)
  have 2: "(\<lambda>newCategory. \<not> list_ex (\<lambda>oldCategory.
              toLowerCase oldCategory = toLowerCase newCategory) (filter_categories oldF))
        = (\<lambda>newCategory. toLowerCase newCategory \<notin>
              toLowerCase ` set (filter_categories oldF))"
    by (simp add: list_ex_eq_image)
  show ?thesis
    using assms by (simp add: updatedFilter_def 1 2)
qed

lemma updatedFilter_updated:
  "uf_updated (updatedFilter oldCategoryFilters newFilter) \<longleftrightarrow>
     filter_id newFilter \<in> filter_id ` set oldCategoryFilters"
proof (cases "find (\<lambda>oldFilter. filter_id oldFilter = filter_id newFilter) oldCategoryFilters")
  case None
  then have "filter_id newFilter \<notin> filter_id ` set oldCategoryFilters"
    by (simp add: find_eq_None_image)
  then show ?thesis by (simp add: updatedFilter_absent)
next
  case (Some oldF)
  then have "filter_id newFilter \<in> filter_id ` set oldCategoryFilters"
    by (rule find_eq_Some_image)
  with Some show ?thesis by (simp add: updatedFilter_present)
qed


text \<open>
  The comparison of the code, equality of the folded strings, is the specification's
  equality up to case.
\<close>

lemma of_char_toLowerChar:
  "(of_char (toLowerChar c) :: nat) = (if isUpperCase c then of_char c + 32 else of_char c)"
  by (auto simp: toLowerChar_def isUpperCase_def Let_def)

lemma toLowerChar_eq_iff: "toLowerChar c = toLowerChar d \<longleftrightarrow> sameLetter c d"
proof -
  have "toLowerChar c = toLowerChar d \<longleftrightarrow>
          (of_char (toLowerChar c) :: nat) = of_char (toLowerChar d)"
    by simp
  also have "\<dots> \<longleftrightarrow> sameLetter c d"
    unfolding of_char_toLowerChar sameLetter_def
    by (auto simp: isUpperCase_def Let_def of_char_eq_iff[symmetric, where ?'a = nat]
        simp del: of_char_eq_iff)
  finally show ?thesis .
qed

lemma toLowerCase_eq_iff: "toLowerCase s = toLowerCase t \<longleftrightarrow> equalIgnoringCase s t"
  unfolding toLowerCase_def equalIgnoringCase_def
proof (induction s arbitrary: t)
  case Nil
  then show ?case by auto
next
  case (Cons c s)
  then show ?case by (cases t) (auto simp: toLowerChar_eq_iff)
qed

lemma fold_in_image_iff:
  "toLowerCase a \<in> toLowerCase ` set xs \<longleftrightarrow> (\<exists>b \<in> set xs. equalIgnoringCase a b)"
  "toLowerCase a \<in> toLowerCase ` set xs \<longleftrightarrow> (\<exists>b \<in> set xs. equalIgnoringCase b a)"
  by (simp_all add: image_iff toLowerCase_eq_iff[symmetric] eq_commute)

lemma updatedFilter_present_up_to_case:
  assumes "find (\<lambda>oldFilter. filter_id oldFilter = filter_id newFilter) oldCategoryFilters
             = Some oldF"
  shows "updatedFilter oldCategoryFilters newFilter =
           \<lparr> uf_id = filter_id newFilter, uf_index = filter_index newFilter,
             uf_title = filter_title newFilter, uf_type = Category_filter,
             uf_description = filter_description newFilter,
             uf_categories =
               Some \<lparr> cat_deleted =
                        filter (\<lambda>oldCategory.
                            \<not> (\<exists>newCategory \<in> set (filter_categories newFilter).
                                  equalIgnoringCase oldCategory newCategory))
                          (filter_categories oldF),
                      cat_new =
                        filter (\<lambda>newCategory.
                            \<not> (\<exists>oldCategory \<in> set (filter_categories oldF).
                                  equalIgnoringCase oldCategory newCategory))
                          (filter_categories newFilter) \<rparr>,
             uf_updated = True \<rparr>"
proof -
  have 1: "(\<lambda>oldCategory. toLowerCase oldCategory \<notin>
              toLowerCase ` set (filter_categories newFilter))
        = (\<lambda>oldCategory. \<not> (\<exists>newCategory \<in> set (filter_categories newFilter).
              equalIgnoringCase oldCategory newCategory))"
    by (simp add: fold_in_image_iff(1))
  have 2: "(\<lambda>newCategory. toLowerCase newCategory \<notin>
              toLowerCase ` set (filter_categories oldF))
        = (\<lambda>newCategory. \<not> (\<exists>oldCategory \<in> set (filter_categories oldF).
              equalIgnoringCase oldCategory newCategory))"
    by (simp add: fold_in_image_iff(2))
  show ?thesis
    unfolding updatedFilter_present[OF assms] 1 2 ..
qed



lemma newAndUpdated_nth:
  assumes "getMetadataDelta oldMetadata newMetadata = Inr d"
    and "i < length (categoryFiltersOf newMetadata)"
  shows "i < length (filters_newAndUpdated (delta_categoryFilters d))"
    and "filters_newAndUpdated (delta_categoryFilters d) ! i =
           updatedFilter (categoryFiltersOf oldMetadata) (categoryFiltersOf newMetadata ! i)"
  using getMetadataDelta_Inr_fields(4)[OF assms(1)] assms(2) by simp_all

text \<open>The example boards, evaluated.\<close>

lemma gore_delta_eq: "getMetadataDelta gore_old gore_new = Inr gore_delta"
  by code_simp

lemma parity_delta_eq: "getMetadataDelta parity_old parity_new = Inr parity_delta"
  by code_simp

lemma gore_collections:
  "textsOf gore_old =
     [\<lparr> text_id = ''t1'', text_index = 1, text_title = ''Rules'',
        text_description = ''Be kind'' \<rparr>]"
  "textsOf gore_new =
     [\<lparr> text_id = ''t1'', text_index = 1, text_title = ''Rules'',
        text_description = ''Be kinder'' \<rparr>,
      \<lparr> text_id = ''t2'', text_index = 4, text_title = ''About'',
        text_description = ''A board'' \<rparr>]"
  "categoryFiltersOf gore_old =
     [\<lparr> filter_id = ''f1'', filter_index = 2, filter_title = ''Gore Categories'',
        filter_description = None,
        filter_categories = [''Blood'', ''Bruises'', ''cat'', [CHR 0xC9, CHR ''t'', CHR 0xE9]] \<rparr>,
      \<lparr> filter_id = ''f3'', filter_index = 3, filter_title = ''Empty'',
        filter_description = None, filter_categories = [] \<rparr>]"
  "categoryFiltersOf gore_new =
     [\<lparr> filter_id = ''f1'', filter_index = 2, filter_title = ''Gore Categories'',
        filter_description = None,
        filter_categories = [''blood'', ''KnifePlay'', ''dog'', [CHR 0xE9, CHR ''t'', CHR 0xE9]] \<rparr>,
      \<lparr> filter_id = ''f2'', filter_index = 5, filter_title = ''Parity'',
        filter_description = None, filter_categories = [''odd'', ''even''] \<rparr>]"
  by (simp_all add: textsOf_def categoryFiltersOf_def gore_old_def gore_new_def)

lemma parity_collections:
  "categoryFiltersOf parity_old =
     [\<lparr> filter_id = ''p1'', filter_index = 1, filter_title = ''First'',
        filter_description = None, filter_categories = [] \<rparr>,
      \<lparr> filter_id = ''p2'', filter_index = 2, filter_title = ''Second'',
        filter_description = None, filter_categories = [''odd'', ''even''] \<rparr>]"
  "categoryFiltersOf parity_new =
     [\<lparr> filter_id = ''p1'', filter_index = 1, filter_title = ''First'',
        filter_description = None, filter_categories = [''odd''] \<rparr>,
      \<lparr> filter_id = ''p2'', filter_index = 2, filter_title = ''Second'',
        filter_description = None, filter_categories = [] \<rparr>]"
  by (simp_all add: categoryFiltersOf_def parity_old_def parity_new_def)

subsection \<open>The claims\<close>

text \<open>
  \<^bold>\<open>C1.\<close> As stated the claim fails: the returned object literal always lists the keys
  \<^verbatim>\<open>tagline\<close> and \<^verbatim>\<open>accentColor\<close>, so an unchanged field is not omitted from the delta. What
  holds: each of the two keys is present in every returned delta; its value is the new
  value when the old value differs from the new one, and \<^verbatim>\<open>undefined\<close> when the two are
  equal. (The comparison is \<^verbatim>\<open>!=\<close>; on values that are a string or \<^verbatim>\<open>undefined\<close> it agrees
  with \<^verbatim>\<open>!==\<close>.)
\<close>

theorem scalar_fields_listed_with_change:
  assumes "getMetadataDelta oldMetadata newMetadata = Inr d"
  shows "delta_tagline d =
           KeyPresent
             (if tagline oldMetadata = tagline newMetadata then None
              else tagline newMetadata)
       \<and> (\<exists>oldSettings newSettings.
             settings oldMetadata = Some oldSettings \<and>
             settings newMetadata = Some newSettings \<and>
             delta_accentColor d =
               KeyPresent
                 (if accentColor oldSettings = accentColor newSettings then None
                  else accentColor newSettings))
       \<and> delta_tagline d \<noteq> KeyAbsent
       \<and> delta_accentColor d \<noteq> KeyAbsent"
  using getMetadataDelta_Inr_fields(5,6)[OF assms] by auto

theorem scalar_fields_listed_with_change_witness:
  "getMetadataDelta gore_old gore_new = Inr gore_delta
   \<and> delta_tagline gore_delta = KeyPresent None
   \<and> delta_accentColor gore_delta = KeyPresent (Some ''#ff5252'')
   \<and> getMetadataDelta parity_old parity_new = Inr parity_delta
   \<and> delta_accentColor parity_delta = KeyPresent None"
  using scalar_fields_listed_with_change[OF gore_delta_eq]
    scalar_fields_listed_with_change[OF parity_delta_eq] gore_delta_eq parity_delta_eq
  by (auto simp: gore_old_def gore_new_def parity_old_def parity_new_def)

text \<open>
  The input that refutes C1 as stated, scenario 3 of the specification: the accent colour
  is \<^verbatim>\<open>#ff5252\<close> before and after, and the delta has the key \<^verbatim>\<open>accentColor\<close>, with the value
  \<^verbatim>\<open>undefined\<close>.
\<close>

theorem unchanged_accentColor_key_is_listed:
  "getMetadataDelta
     \<lparr> tagline = Some ''For BobaBoard-related discussions.'',
       settings = Some \<lparr> accentColor = Some ''#ff5252'' \<rparr>,
       descriptions = Some [] \<rparr>
     \<lparr> tagline = Some ''For BobaBoard-related discussions.'',
       settings = Some \<lparr> accentColor = Some ''#ff5252'' \<rparr>,
       descriptions = Some [] \<rparr>
   = Inr \<lparr> delta_accentColor = KeyPresent None,
           delta_tagline = KeyPresent None,
           delta_texts = \<lparr> texts_deleted = [], texts_newAndUpdated = [] \<rparr>,
           delta_categoryFilters = \<lparr> filters_deleted = [], filters_newAndUpdated = [] \<rparr> \<rparr>"
  by (simp add: getMetadataDelta_def Let_def textsOf_def categoryFiltersOf_def)

text \<open>
  \<^bold>\<open>C2.\<close> As stated the claim fails for category filters: the entry does not retain the
  \<^verbatim>\<open>categories\<close> of the new filter, which the code overwrites with the nested delta. What
  holds: \<^verbatim>\<open>newAndUpdated\<close> has one entry for each item of the new state, in the order of the
  new state. The entry of a text has all the fields of the text. The entry of a category
  filter has its \<^verbatim>\<open>id\<close>, \<^verbatim>\<open>index\<close>, \<^verbatim>\<open>title\<close>, \<^verbatim>\<open>type\<close> and \<^verbatim>\<open>description\<close>, and as \<^verbatim>\<open>categories\<close>
  the nested delta: against the first old filter of the same id, or with every category new
  when there is none. An entry is tagged \<^verbatim>\<open>updated\<close> exactly when an item of the same kind
  with the same id is in the old state.
\<close>

theorem newAndUpdated_entries:
  assumes "getMetadataDelta oldMetadata newMetadata = Inr d"
  shows "texts_newAndUpdated (delta_texts d) =
           map (\<lambda>text. \<lparr> ut_id = text_id text, ut_index = text_index text,
                         ut_title = text_title text, ut_type = Text,
                         ut_description = text_description text,
                         ut_updated = (text_id text \<in> text_id ` set (textsOf oldMetadata)) \<rparr>)
             (textsOf newMetadata)
       \<and> filters_newAndUpdated (delta_categoryFilters d) =
           map (\<lambda>f. \<lparr> uf_id = filter_id f, uf_index = filter_index f,
                       uf_title = filter_title f, uf_type = Category_filter,
                       uf_description = filter_description f,
                       uf_categories = Some
                         (case find (\<lambda>old. filter_id old = filter_id f)
                                 (categoryFiltersOf oldMetadata) of
                            None \<Rightarrow>
                              \<lparr> cat_deleted = [], cat_new = filter_categories f \<rparr>
                          | Some old \<Rightarrow>
                              \<lparr> cat_deleted =
                                  filter (\<lambda>oldCategory.
                                      \<not> (\<exists>newCategory \<in> set (filter_categories f).
                                            equalIgnoringCase oldCategory newCategory))
                                    (filter_categories old),
                                cat_new =
                                  filter (\<lambda>newCategory.
                                      \<not> (\<exists>oldCategory \<in> set (filter_categories old).
                                            equalIgnoringCase oldCategory newCategory))
                                    (filter_categories f) \<rparr>),
                       uf_updated =
                         (filter_id f \<in> filter_id ` set (categoryFiltersOf oldMetadata)) \<rparr>)
             (categoryFiltersOf newMetadata)"
proof -
  have "updatedText (textsOf oldMetadata) =
          (\<lambda>text. \<lparr> ut_id = text_id text, ut_index = text_index text,
                         ut_title = text_title text, ut_type = Text,
                         ut_description = text_description text,
                         ut_updated = (text_id text \<in> text_id ` set (textsOf oldMetadata)) \<rparr>)"
    by (rule ext) (simp add: updatedText_def list_ex_eq_image)
  then have texts: "texts_newAndUpdated (delta_texts d) =
           map (\<lambda>text. \<lparr> ut_id = text_id text, ut_index = text_index text,
                         ut_title = text_title text, ut_type = Text,
                         ut_description = text_description text,
                         ut_updated = (text_id text \<in> text_id ` set (textsOf oldMetadata)) \<rparr>)
             (textsOf newMetadata)"
    using getMetadataDelta_Inr_fields(2)[OF assms] by simp
  have "updatedFilter (categoryFiltersOf oldMetadata) f =
          \<lparr> uf_id = filter_id f, uf_index = filter_index f,
                       uf_title = filter_title f, uf_type = Category_filter,
                       uf_description = filter_description f,
                       uf_categories = Some
                         (case find (\<lambda>old. filter_id old = filter_id f)
                                 (categoryFiltersOf oldMetadata) of
                            None \<Rightarrow>
                              \<lparr> cat_deleted = [], cat_new = filter_categories f \<rparr>
                          | Some old \<Rightarrow>
                              \<lparr> cat_deleted =
                                  filter (\<lambda>oldCategory.
                                      \<not> (\<exists>newCategory \<in> set (filter_categories f).
                                            equalIgnoringCase oldCategory newCategory))
                                    (filter_categories old),
                                cat_new =
                                  filter (\<lambda>newCategory.
                                      \<not> (\<exists>oldCategory \<in> set (filter_categories old).
                                            equalIgnoringCase oldCategory newCategory))
                                    (filter_categories f) \<rparr>),
                       uf_updated =
                         (filter_id f \<in> filter_id ` set (categoryFiltersOf oldMetadata)) \<rparr>" for f
  proof (cases "find (\<lambda>old. filter_id old = filter_id f) (categoryFiltersOf oldMetadata)")
    case None
    then have absent: "filter_id f \<notin> filter_id ` set (categoryFiltersOf oldMetadata)"
      by (simp add: find_eq_None_image)
    show ?thesis
      unfolding updatedFilter_absent[OF absent] using None absent by simp
  next
    case (Some old)
    then have present: "filter_id f \<in> filter_id ` set (categoryFiltersOf oldMetadata)"
      by (rule find_eq_Some_image)
    show ?thesis
      unfolding updatedFilter_present_up_to_case[OF Some] using Some present
      by simp
  qed
  then have "updatedFilter (categoryFiltersOf oldMetadata) =
          (\<lambda>f. \<lparr> uf_id = filter_id f, uf_index = filter_index f,
                       uf_title = filter_title f, uf_type = Category_filter,
                       uf_description = filter_description f,
                       uf_categories = Some
                         (case find (\<lambda>old. filter_id old = filter_id f)
                                 (categoryFiltersOf oldMetadata) of
                            None \<Rightarrow>
                              \<lparr> cat_deleted = [], cat_new = filter_categories f \<rparr>
                          | Some old \<Rightarrow>
                              \<lparr> cat_deleted =
                                  filter (\<lambda>oldCategory.
                                      \<not> (\<exists>newCategory \<in> set (filter_categories f).
                                            equalIgnoringCase oldCategory newCategory))
                                    (filter_categories old),
                                cat_new =
                                  filter (\<lambda>newCategory.
                                      \<not> (\<exists>oldCategory \<in> set (filter_categories old).
                                            equalIgnoringCase oldCategory newCategory))
                                    (filter_categories f) \<rparr>),
                       uf_updated =
                         (filter_id f \<in> filter_id ` set (categoryFiltersOf oldMetadata)) \<rparr>)"
    by (rule ext)
  then have filters: "filters_newAndUpdated (delta_categoryFilters d) =
           map (\<lambda>f. \<lparr> uf_id = filter_id f, uf_index = filter_index f,
                       uf_title = filter_title f, uf_type = Category_filter,
                       uf_description = filter_description f,
                       uf_categories = Some
                         (case find (\<lambda>old. filter_id old = filter_id f)
                                 (categoryFiltersOf oldMetadata) of
                            None \<Rightarrow>
                              \<lparr> cat_deleted = [], cat_new = filter_categories f \<rparr>
                          | Some old \<Rightarrow>
                              \<lparr> cat_deleted =
                                  filter (\<lambda>oldCategory.
                                      \<not> (\<exists>newCategory \<in> set (filter_categories f).
                                            equalIgnoringCase oldCategory newCategory))
                                    (filter_categories old),
                                cat_new =
                                  filter (\<lambda>newCategory.
                                      \<not> (\<exists>oldCategory \<in> set (filter_categories old).
                                            equalIgnoringCase oldCategory newCategory))
                                    (filter_categories f) \<rparr>),
                       uf_updated =
                         (filter_id f \<in> filter_id ` set (categoryFiltersOf oldMetadata)) \<rparr>)
             (categoryFiltersOf newMetadata)"
    using getMetadataDelta_Inr_fields(4)[OF assms] by simp
  from texts filters show ?thesis by (rule conjI)
qed

theorem newAndUpdated_entries_witness:
  "getMetadataDelta gore_old gore_new = Inr gore_delta
   \<and> texts_newAndUpdated (delta_texts gore_delta) =
       [ \<lparr> ut_id = ''t1'', ut_index = 1, ut_title = ''Rules'', ut_type = Text,
           ut_description = ''Be kinder'', ut_updated = True \<rparr>,
         \<lparr> ut_id = ''t2'', ut_index = 4, ut_title = ''About'', ut_type = Text,
           ut_description = ''A board'', ut_updated = False \<rparr> ]
   \<and> filters_newAndUpdated (delta_categoryFilters gore_delta) =
       [ \<lparr> uf_id = ''f1'', uf_index = 2, uf_title = ''Gore Categories'',
           uf_type = Category_filter, uf_description = None,
           uf_categories =
             Some \<lparr> cat_deleted = [''Bruises'', ''cat''],
                    cat_new = [''KnifePlay'', ''dog''] \<rparr>,
           uf_updated = True \<rparr>,
         \<lparr> uf_id = ''f2'', uf_index = 5, uf_title = ''Parity'',
           uf_type = Category_filter, uf_description = None,
           uf_categories = Some \<lparr> cat_deleted = [], cat_new = [''odd'', ''even''] \<rparr>,
           uf_updated = False \<rparr> ]"
proof -
  note entries = newAndUpdated_entries[OF gore_delta_eq]
  have "texts_newAndUpdated (delta_texts gore_delta) =
       [ \<lparr> ut_id = ''t1'', ut_index = 1, ut_title = ''Rules'', ut_type = Text,
           ut_description = ''Be kinder'', ut_updated = True \<rparr>,
         \<lparr> ut_id = ''t2'', ut_index = 4, ut_title = ''About'', ut_type = Text,
           ut_description = ''A board'', ut_updated = False \<rparr> ]"
    using conjunct1[OF entries] by (simp add: gore_collections)
  moreover have "filters_newAndUpdated (delta_categoryFilters gore_delta) =
       [ \<lparr> uf_id = ''f1'', uf_index = 2, uf_title = ''Gore Categories'',
           uf_type = Category_filter, uf_description = None,
           uf_categories =
             Some \<lparr> cat_deleted = [''Bruises'', ''cat''],
                    cat_new = [''KnifePlay'', ''dog''] \<rparr>,
           uf_updated = True \<rparr>,
         \<lparr> uf_id = ''f2'', uf_index = 5, uf_title = ''Parity'',
           uf_type = Category_filter, uf_description = None,
           uf_categories = Some \<lparr> cat_deleted = [], cat_new = [''odd'', ''even''] \<rparr>,
           uf_updated = False \<rparr> ]"
    by (simp add: gore_delta_def)
  ultimately show ?thesis
    using gore_delta_eq by simp
qed

text \<open>
  The input that refutes C2 as stated: the new filter \<^verbatim>\<open>f1\<close> of the board \<^verbatim>\<open>gore\<close> has four
  categories, and its entry holds a nested delta in which two of them, \<^verbatim>\<open>blood\<close> and the
  lower-case word for summer, do not occur.
\<close>

theorem filter_categories_not_retained:
  "getMetadataDelta gore_old gore_new = Inr gore_delta
   \<and> filter_categories (categoryFiltersOf gore_new ! 0) =
       [''blood'', ''KnifePlay'', ''dog'', [CHR 0xE9, CHR ''t'', CHR 0xE9]]
   \<and> uf_id (filters_newAndUpdated (delta_categoryFilters gore_delta) ! 0) =
       filter_id (categoryFiltersOf gore_new ! 0)
   \<and> uf_categories (filters_newAndUpdated (delta_categoryFilters gore_delta) ! 0) =
       Some \<lparr> cat_deleted = [''Bruises'', ''cat''], cat_new = [''KnifePlay'', ''dog''] \<rparr>"
  using gore_delta_eq by (simp add: gore_collections gore_delta_def)

text \<open>
  \<^bold>\<open>C3.\<close> \<^verbatim>\<open>deleted\<close>, for texts and for category filters, lists the old items whose id is
  not the id of any new item of the same kind, in the old order, each reduced to its id.
  As sets, the deleted ids are the old ids minus the new ids.
\<close>

theorem deleted_is_old_minus_new:
  assumes "getMetadataDelta oldMetadata newMetadata = Inr d"
  shows "texts_deleted (delta_texts d) =
           map (\<lambda>text. \<lparr> deleted_id = text_id text \<rparr>)
             (filter (\<lambda>text. text_id text \<notin> text_id ` set (textsOf newMetadata))
                (textsOf oldMetadata))
       \<and> filters_deleted (delta_categoryFilters d) =
           map (\<lambda>f. \<lparr> deleted_id = filter_id f \<rparr>)
             (filter (\<lambda>f. filter_id f \<notin> filter_id ` set (categoryFiltersOf newMetadata))
                (categoryFiltersOf oldMetadata))
       \<and> deleted_id ` set (texts_deleted (delta_texts d)) =
           text_id ` set (textsOf oldMetadata) - text_id ` set (textsOf newMetadata)
       \<and> deleted_id ` set (filters_deleted (delta_categoryFilters d)) =
           filter_id ` set (categoryFiltersOf oldMetadata)
             - filter_id ` set (categoryFiltersOf newMetadata)"
proof -
  have t: "(\<lambda>oldText. \<not> list_ex (\<lambda>newText. text_id newText = text_id oldText)
                 (textsOf newMetadata))
         = (\<lambda>text. text_id text \<notin> text_id ` set (textsOf newMetadata))"
    by (simp add: list_ex_eq_image)
  have f: "(\<lambda>oldFilter. \<not> list_ex (\<lambda>newFilter. filter_id newFilter = filter_id oldFilter)
                 (categoryFiltersOf newMetadata))
         = (\<lambda>f. filter_id f \<notin> filter_id ` set (categoryFiltersOf newMetadata))"
    by (simp add: list_ex_eq_image)
  have 1: "texts_deleted (delta_texts d) =
           map (\<lambda>text. \<lparr> deleted_id = text_id text \<rparr>)
             (filter (\<lambda>text. text_id text \<notin> text_id ` set (textsOf newMetadata))
                (textsOf oldMetadata))"
    using getMetadataDelta_Inr_fields(1)[OF assms] by (simp only: t)
  have 2: "filters_deleted (delta_categoryFilters d) =
           map (\<lambda>f. \<lparr> deleted_id = filter_id f \<rparr>)
             (filter (\<lambda>f. filter_id f \<notin> filter_id ` set (categoryFiltersOf newMetadata))
                (categoryFiltersOf oldMetadata))"
    using getMetadataDelta_Inr_fields(3)[OF assms] by (simp only: f)
  have 3: "deleted_id ` set (texts_deleted (delta_texts d)) =
           text_id ` set (textsOf oldMetadata) - text_id ` set (textsOf newMetadata)"
    unfolding 1 by (auto simp: image_iff)
  have 4: "deleted_id ` set (filters_deleted (delta_categoryFilters d)) =
           filter_id ` set (categoryFiltersOf oldMetadata)
             - filter_id ` set (categoryFiltersOf newMetadata)"
    unfolding 2 by (auto simp: image_iff)
  from 1 2 3 4 show ?thesis by blast
qed

theorem deleted_is_old_minus_new_witness:
  "getMetadataDelta gore_old gore_new = Inr gore_delta
   \<and> texts_deleted (delta_texts gore_delta) = []
   \<and> filters_deleted (delta_categoryFilters gore_delta) = [\<lparr> deleted_id = ''f3'' \<rparr>]"
  using deleted_is_old_minus_new[OF gore_delta_eq] gore_delta_eq
  by (simp add: gore_collections)

text \<open>
  \<^bold>\<open>C4.\<close> A category filter of the new state whose id no old category filter has is
  tagged \<^verbatim>\<open>updated = false\<close>; its nested delta has no deleted category and lists every
  category of the filter as new.
\<close>

theorem filter_absent_from_old_is_all_new:
  assumes "getMetadataDelta oldMetadata newMetadata = Inr d"
    and "i < length (categoryFiltersOf newMetadata)"
    and "newFilter = categoryFiltersOf newMetadata ! i"
    and "filter_id newFilter \<notin> filter_id ` set (categoryFiltersOf oldMetadata)"
  shows "i < length (filters_newAndUpdated (delta_categoryFilters d))
       \<and> filters_newAndUpdated (delta_categoryFilters d) ! i =
           \<lparr> uf_id = filter_id newFilter, uf_index = filter_index newFilter,
             uf_title = filter_title newFilter, uf_type = Category_filter,
             uf_description = filter_description newFilter,
             uf_categories =
               Some \<lparr> cat_deleted = [], cat_new = filter_categories newFilter \<rparr>,
             uf_updated = False \<rparr>"
  using newAndUpdated_nth[OF assms(1,2)] assms(3,4)
  by (simp add: updatedFilter_absent)

theorem filter_absent_from_old_is_all_new_witness:
  "getMetadataDelta gore_old gore_new = Inr gore_delta
   \<and> 1 < length (categoryFiltersOf gore_new)
   \<and> filter_id (categoryFiltersOf gore_new ! 1) \<notin> filter_id ` set (categoryFiltersOf gore_old)
   \<and> filters_newAndUpdated (delta_categoryFilters gore_delta) ! 1 =
       \<lparr> uf_id = ''f2'', uf_index = 5, uf_title = ''Parity'', uf_type = Category_filter,
         uf_description = None,
         uf_categories = Some \<lparr> cat_deleted = [], cat_new = [''odd'', ''even''] \<rparr>,
         uf_updated = False \<rparr>"
proof -
  have len: "1 < length (categoryFiltersOf gore_new)"
    by (simp add: gore_collections)
  have absent: "filter_id (categoryFiltersOf gore_new ! 1)
                  \<notin> filter_id ` set (categoryFiltersOf gore_old)"
    by (simp add: gore_collections)
  show ?thesis
    using filter_absent_from_old_is_all_new[OF gore_delta_eq len refl absent]
      gore_delta_eq len absent
    by (simp add: gore_collections)
qed





text \<open>
  \<^bold>\<open>C7.\<close> For a category filter present in both states: when the old filter has no
  category, nothing is deleted and every category of the new filter is new; when the new
  filter has no category, nothing is new and every category of the old filter is deleted.
\<close>

theorem empty_side_of_nested_delta:
  assumes "getMetadataDelta oldMetadata newMetadata = Inr d"
    and "i < length (categoryFiltersOf newMetadata)"
    and "newFilter = categoryFiltersOf newMetadata ! i"
    and "find (\<lambda>f. filter_id f = filter_id newFilter) (categoryFiltersOf oldMetadata)
           = Some oldFilter"
  shows "(filter_categories oldFilter = [] \<longrightarrow>
            uf_categories (filters_newAndUpdated (delta_categoryFilters d) ! i) =
              Some \<lparr> cat_deleted = [], cat_new = filter_categories newFilter \<rparr>)
       \<and> (filter_categories newFilter = [] \<longrightarrow>
            uf_categories (filters_newAndUpdated (delta_categoryFilters d) ! i) =
              Some \<lparr> cat_deleted = filter_categories oldFilter, cat_new = [] \<rparr>)"
  using newAndUpdated_nth(2)[OF assms(1,2)] assms(3,4)
  by (simp add: updatedFilter_present)

theorem empty_side_of_nested_delta_witness:
  "getMetadataDelta parity_old parity_new = Inr parity_delta
   \<and> filter_categories (categoryFiltersOf parity_old ! 0) = []
   \<and> uf_categories (filters_newAndUpdated (delta_categoryFilters parity_delta) ! 0) =
       Some \<lparr> cat_deleted = [], cat_new = [''odd''] \<rparr>
   \<and> filter_categories (categoryFiltersOf parity_new ! 1) = []
   \<and> uf_categories (filters_newAndUpdated (delta_categoryFilters parity_delta) ! 1) =
       Some \<lparr> cat_deleted = [''odd'', ''even''], cat_new = [] \<rparr>"
proof -
  have len0: "0 < length (categoryFiltersOf parity_new)"
    and len1: "1 < length (categoryFiltersOf parity_new)"
    by (simp_all add: parity_collections)
  have found0: "find (\<lambda>f. filter_id f = filter_id (categoryFiltersOf parity_new ! 0))
         (categoryFiltersOf parity_old) = Some (categoryFiltersOf parity_old ! 0)"
    and found1: "find (\<lambda>f. filter_id f = filter_id (categoryFiltersOf parity_new ! 1))
         (categoryFiltersOf parity_old) = Some (categoryFiltersOf parity_old ! 1)"
    by (simp_all add: parity_collections)
  show ?thesis
    using empty_side_of_nested_delta[OF parity_delta_eq len0 refl found0]
      empty_side_of_nested_delta[OF parity_delta_eq len1 refl found1]
      parity_delta_eq
    by (simp add: parity_collections)
qed

text \<open>
  \<^bold>\<open>C8.\<close> \<^verbatim>\<open>getMetadataDelta\<close> is not total on the values of its parameter type. A missing
  \<^verbatim>\<open>descriptions\<close> is normalised to the empty list, but \<^verbatim>\<open>settings\<close> is read through a
  non-null assertion: the function returns a delta exactly when both inputs have a
  \<^verbatim>\<open>settings\<close> object, and throws a \<^verbatim>\<open>TypeError\<close> when either lacks it.
\<close>

theorem returns_iff_both_settings_present:
  "((\<exists>d. getMetadataDelta oldMetadata newMetadata = Inr d) \<longleftrightarrow>
      settings oldMetadata \<noteq> None \<and> settings newMetadata \<noteq> None)
   \<and> (settings oldMetadata = None \<or> settings newMetadata = None \<longrightarrow>
        getMetadataDelta oldMetadata newMetadata = Inl TypeError)
   \<and> (descriptions oldMetadata = None \<longrightarrow>
        textsOf oldMetadata = [] \<and> categoryFiltersOf oldMetadata = [])
   \<and> (descriptions newMetadata = None \<longrightarrow>
        textsOf newMetadata = [] \<and> categoryFiltersOf newMetadata = [])"
proof -
  have 1: "settings oldMetadata = None \<Longrightarrow> getMetadataDelta oldMetadata newMetadata = Inl TypeError"
    by (simp add: getMetadataDelta_def Let_def)
  have 2: "settings newMetadata = None \<Longrightarrow> getMetadataDelta oldMetadata newMetadata = Inl TypeError"
    by (cases "settings oldMetadata") (simp_all add: getMetadataDelta_def Let_def)
  have 3: "settings oldMetadata \<noteq> None \<Longrightarrow> settings newMetadata \<noteq> None \<Longrightarrow>
             \<exists>d. getMetadataDelta oldMetadata newMetadata = Inr d"
    by (cases "settings oldMetadata"; cases "settings newMetadata")
       (simp_all add: getMetadataDelta_def Let_def)
  have 4: "\<And>m. descriptions m = None \<Longrightarrow> textsOf m = [] \<and> categoryFiltersOf m = []"
    by (simp add: textsOf_def categoryFiltersOf_def)
  from 1 2 3 4 show ?thesis
    by (metis Inl_Inr_False)
qed

theorem returns_iff_both_settings_present_witness:
  "settings gore_old \<noteq> None \<and> settings gore_new \<noteq> None
   \<and> (\<exists>d. getMetadataDelta gore_old gore_new = Inr d)
   \<and> settings empty_board = None \<and> descriptions empty_board = None
   \<and> getMetadataDelta empty_board gore_new = Inl TypeError
   \<and> getMetadataDelta gore_old empty_board = Inl TypeError
   \<and> textsOf empty_board = [] \<and> categoryFiltersOf empty_board = []"
  using returns_iff_both_settings_present[of gore_old gore_new]
    returns_iff_both_settings_present[of empty_board gore_new]
    returns_iff_both_settings_present[of gore_old empty_board]
  by (simp add: gore_old_def gore_new_def empty_board_def)

text \<open>
  The input that refutes C8 as stated: two boards that differ from a complete one only by
  the missing \<^verbatim>\<open>settings\<close>.
\<close>

theorem missing_settings_raises:
  "getMetadataDelta
     \<lparr> tagline = Some ''Blood! Blood! Blood!'', settings = None, descriptions = Some [] \<rparr>
     \<lparr> tagline = Some ''Blood! Blood! Blood!'', settings = None, descriptions = Some [] \<rparr>
   = Inl TypeError"
  by (simp add: getMetadataDelta_def Let_def)

text \<open>
  \<^bold>\<open>C9.\<close> A call of \<^verbatim>\<open>getBoardMetadataByExternalId\<close> with an identity, that is a firebaseId
  that is a non-empty string (the code tests \<^verbatim>\<open>!firebaseId\<close>), makes no call to the cache
  and leaves it as it was; its result is that of the storage fetch, rendered for a
  logged-in reader, whatever the cache holds.
\<close>

theorem cache_bypassed_with_identity:
  assumes "firebaseId = Some uid" and "uid \<noteq> []"
  shows "getBoardMetadataByExternalId env boardExternalId firebaseId hasBoardAccess c =
           (case getBoardByExternalId env firebaseId boardExternalId of
              None \<Rightarrow> Inr None
            | Some board \<Rightarrow>
                Inr (Some (spread env
                  (case processBoardsSummary env [board] True hasBoardAccess of
                     [] \<Rightarrow> None | first # _ \<Rightarrow> Some first)
                  (processBoardMetadata env board True hasBoardAccess))),
            c)"
proof -
  have t: "truthy firebaseId" using assms by (simp add: truthy_def)
  show ?thesis
    by (simp add: getBoardMetadataByExternalId_def fetchAndRender_def t Let_def
        split: option.split)
qed

theorem cache_bypassed_with_identity_witness:
  "getBoardMetadataByExternalId demo_env ''gore'' (Some ''uid-1'') True demo_cache =
     (Inr (Some ''summary+,metadata+''), demo_cache)
   \<and> store demo_cache (''BOARD_METADATA'', ''gore'') = Some ''cached-anonymous-view''"
  using cache_bypassed_with_identity[of "Some ''uid-1''" "''uid-1''" demo_env "''gore''" True
      demo_cache]
  by (simp add: demo_env_def demo_cache_def)

text \<open>
  \<^bold>\<open>C10.\<close> Every category-filter entry of \<^verbatim>\<open>newAndUpdated\<close> has a \<^verbatim>\<open>categories\<close> object with a
  deleted and a new list. The new list is made of categories of the new filter as they are
  written there, and, when an old filter has the id, the deleted list is made of categories
  of that old filter as written there.
\<close>

theorem nested_delta_keeps_original_casing:
  assumes "getMetadataDelta oldMetadata newMetadata = Inr d"
    and "i < length (categoryFiltersOf newMetadata)"
    and "newFilter = categoryFiltersOf newMetadata ! i"
  shows "(\<exists>c. uf_categories (filters_newAndUpdated (delta_categoryFilters d) ! i) = Some c
            \<and> set (cat_new c) \<subseteq> set (filter_categories newFilter)
            \<and> (\<forall>oldFilter.
                 find (\<lambda>f. filter_id f = filter_id newFilter) (categoryFiltersOf oldMetadata)
                   = Some oldFilter \<longrightarrow>
                 set (cat_deleted c) \<subseteq> set (filter_categories oldFilter)))
       \<and> (\<forall>e \<in> set (filters_newAndUpdated (delta_categoryFilters d)).
            uf_categories e \<noteq> None)"
proof -
  have e: "filters_newAndUpdated (delta_categoryFilters d) ! i =
             updatedFilter (categoryFiltersOf oldMetadata) newFilter"
    using newAndUpdated_nth(2)[OF assms(1,2)] assms(3) by simp
  have 1: "\<exists>c. uf_categories (filters_newAndUpdated (delta_categoryFilters d) ! i) = Some c
            \<and> set (cat_new c) \<subseteq> set (filter_categories newFilter)
            \<and> (\<forall>oldFilter.
                 find (\<lambda>f. filter_id f = filter_id newFilter) (categoryFiltersOf oldMetadata)
                   = Some oldFilter \<longrightarrow>
                 set (cat_deleted c) \<subseteq> set (filter_categories oldFilter))"
  proof (cases "find (\<lambda>f. filter_id f = filter_id newFilter) (categoryFiltersOf oldMetadata)")
    case None
    then have "filter_id newFilter \<notin> filter_id ` set (categoryFiltersOf oldMetadata)"
      by (simp add: find_eq_None_image)
    then show ?thesis
      unfolding e using None by (simp add: updatedFilter_absent)
  next
    case (Some oldF)
    then show ?thesis
      unfolding e by (simp add: updatedFilter_present)
  qed
  have 2: "\<forall>e \<in> set (filters_newAndUpdated (delta_categoryFilters d)).
            uf_categories e \<noteq> None"
    using getMetadataDelta_Inr_fields(4)[OF assms(1)]
    by (auto simp: updatedFilter_def Let_def)
  from 1 2 show ?thesis by blast
qed

theorem nested_delta_keeps_original_casing_witness:
  "getMetadataDelta gore_old gore_new = Inr gore_delta
   \<and> 0 < length (categoryFiltersOf gore_new)
   \<and> find (\<lambda>f. filter_id f = filter_id (categoryFiltersOf gore_new ! 0))
         (categoryFiltersOf gore_old) = Some (categoryFiltersOf gore_old ! 0)
   \<and> filter_categories (categoryFiltersOf gore_old ! 0) =
       [''Blood'', ''Bruises'', ''cat'', [CHR 0xC9, CHR ''t'', CHR 0xE9]]
   \<and> filter_categories (categoryFiltersOf gore_new ! 0) =
       [''blood'', ''KnifePlay'', ''dog'', [CHR 0xE9, CHR ''t'', CHR 0xE9]]
   \<and> (\<exists>c. uf_categories (filters_newAndUpdated (delta_categoryFilters gore_delta) ! 0) = Some c
        \<and> cat_deleted c = [''Bruises'', ''cat'']
        \<and> cat_new c = [''KnifePlay'', ''dog'']
        \<and> set (cat_new c) \<subseteq> set [''blood'', ''KnifePlay'', ''dog'', [CHR 0xE9, CHR ''t'', CHR 0xE9]]
        \<and> set (cat_deleted c) \<subseteq> set [''Blood'', ''Bruises'', ''cat'', [CHR 0xC9, CHR ''t'', CHR 0xE9]])"
proof -
  have len: "0 < length (categoryFiltersOf gore_new)"
    by (simp add: gore_collections)
  have found: "find (\<lambda>f. filter_id f = filter_id (categoryFiltersOf gore_new ! 0))
         (categoryFiltersOf gore_old) = Some (categoryFiltersOf gore_old ! 0)"
    by (simp add: gore_collections)
  have old: "filter_categories (categoryFiltersOf gore_old ! 0) =
       [''Blood'', ''Bruises'', ''cat'', [CHR 0xC9, CHR ''t'', CHR 0xE9]]"
    and new: "filter_categories (categoryFiltersOf gore_new ! 0) =
       [''blood'', ''KnifePlay'', ''dog'', [CHR 0xE9, CHR ''t'', CHR 0xE9]]"
    by (simp_all add: gore_collections)
  from conjunct1[OF nested_delta_keeps_original_casing[OF gore_delta_eq len refl]]
  obtain c where c: "uf_categories (filters_newAndUpdated (delta_categoryFilters gore_delta) ! 0)
        = Some c"
    and subset_new:
      "set (cat_new c) \<subseteq> set (filter_categories (categoryFiltersOf gore_new ! 0))"
    and subset_deleted: "\<forall>oldFilter.
                 find (\<lambda>f. filter_id f = filter_id (categoryFiltersOf gore_new ! 0))
                    (categoryFiltersOf gore_old) = Some oldFilter \<longrightarrow>
                 set (cat_deleted c) \<subseteq> set (filter_categories oldFilter)"
    by blast
  from mp[OF spec[OF subset_deleted] found]
  have d: "set (cat_deleted c) \<subseteq> set [''Blood'', ''Bruises'', ''cat'', [CHR 0xC9, CHR ''t'', CHR 0xE9]]"
    unfolding old .
  have n: "set (cat_new c) \<subseteq> set [''blood'', ''KnifePlay'', ''dog'', [CHR 0xE9, CHR ''t'', CHR 0xE9]]"
    using subset_new unfolding new .
  have v: "cat_deleted c = [''Bruises'', ''cat'']" "cat_new c = [''KnifePlay'', ''dog'']"
    using c by (auto simp: gore_delta_def)
  have "\<exists>c. uf_categories (filters_newAndUpdated (delta_categoryFilters gore_delta) ! 0) = Some c
        \<and> cat_deleted c = [''Bruises'', ''cat'']
        \<and> cat_new c = [''KnifePlay'', ''dog'']
        \<and> set (cat_new c) \<subseteq> set [''blood'', ''KnifePlay'', ''dog'', [CHR 0xE9, CHR ''t'', CHR 0xE9]]
        \<and> set (cat_deleted c) \<subseteq> set [''Blood'', ''Bruises'', ''cat'', [CHR 0xC9, CHR ''t'', CHR 0xE9]]"
    by (intro exI[of _ c] conjI c v n d)
  then show ?thesis
    by (intro conjI gore_delta_eq len found old new)
qed

end
